theory Spec2Isabelle
  imports Main "HOL-Library.Sublist" "HOL-Library.AList"
begin

section \<open>Documents and request payloads\<close>

text \<open>
  Request bodies and stored documents are JSON values. A JSON object is an association
  list from field names to values (\<open>map_of\<close> reads a field). Numbers are integers;
  a character of a \<open>string\<close> stands for one character of the Python \<open>str\<close>.
\<close>

datatype jv =
    JNull
  | JBool bool
  | JInt int
  | JStr string
  | JList "jv list"
  | JObj "(string \<times> jv) list"

type_synonym document = "(string \<times> jv) list"

section \<open>Filter documents built by the handlers\<close>

text \<open>
  The handlers of \<open>main.py\<close> build three kinds of conditions on a field: a plain value
  (\<open>{"author_id": author_id}\<close>), \<open>{"$in": [...]}\<close> and
  \<open>{"$regex": q, "$options": "i"}\<close>. A filter dictionary is the list of its entries,
  all of which must hold; \<open>{"$or": [f1, f2]}\<close> holds when one of the dictionaries does.
\<close>

datatype cond =
    Eq string
  | In "string list"
  | Regex string string

datatype clause =
    Fld string cond
  | Or "clause list list"

type_synonym query = "clause list"

section \<open>Regular expressions of the store\<close>

text \<open>
  The characters that a regular expression reads as operators outside a character class.
\<close>

definition metachars :: "char list" where
  "metachars = CHR 0x5C # ''^$.[|()?*+{''"

definition plain :: "char \<Rightarrow> bool" where
  "plain c = (c \<notin> set metachars)"

text \<open>
  Letter case. A character stands for a code point below 256; the capital letters among
  these are \<open>A\<close> to \<open>Z\<close> and the accented capitals \<open>0xC0\<close> to \<open>0xDE\<close> (but the
  multiplication sign \<open>0xD7\<close>), each 32 below its small letter. The other code points
  have no partner of the other case below 256.
\<close>

definition capitals :: "char list" where
  "capitals = ''ABCDEFGHIJKLMNOPQRSTUVWXYZ'' @
     [CHR 0xC0, CHR 0xC1, CHR 0xC2, CHR 0xC3, CHR 0xC4, CHR 0xC5, CHR 0xC6, CHR 0xC7,
      CHR 0xC8, CHR 0xC9, CHR 0xCA, CHR 0xCB, CHR 0xCC, CHR 0xCD, CHR 0xCE, CHR 0xCF,
      CHR 0xD0, CHR 0xD1, CHR 0xD2, CHR 0xD3, CHR 0xD4, CHR 0xD5, CHR 0xD6, CHR 0xD8,
      CHR 0xD9, CHR 0xDA, CHR 0xDB, CHR 0xDC, CHR 0xDD, CHR 0xDE]"

definition smalls :: "char list" where
  "smalls = ''abcdefghijklmnopqrstuvwxyz'' @
     [CHR 0xE0, CHR 0xE1, CHR 0xE2, CHR 0xE3, CHR 0xE4, CHR 0xE5, CHR 0xE6, CHR 0xE7,
      CHR 0xE8, CHR 0xE9, CHR 0xEA, CHR 0xEB, CHR 0xEC, CHR 0xED, CHR 0xEE, CHR 0xEF,
      CHR 0xF0, CHR 0xF1, CHR 0xF2, CHR 0xF3, CHR 0xF4, CHR 0xF5, CHR 0xF6, CHR 0xF8,
      CHR 0xF9, CHR 0xFA, CHR 0xFB, CHR 0xFC, CHR 0xFD, CHR 0xFE]"

definition lower :: "char \<Rightarrow> char" where
  "lower c = (case map_of (zip capitals smalls) c of Some l \<Rightarrow> l | None \<Rightarrow> c)"

text \<open>
  One pattern character against one text character: the dot stands for any character but
  the line feed, any other character for itself, up to letter case under option \<open>i\<close>.
\<close>

definition rx_char :: "bool \<Rightarrow> char \<Rightarrow> char \<Rightarrow> bool" where
  "rx_char ci p t =
     (if p = CHR ''.'' then t \<noteq> CHR 0x0A
      else if ci then lower p = lower t
      else p = t)"

fun rx_prefix :: "bool \<Rightarrow> string \<Rightarrow> string \<Rightarrow> bool" where
  "rx_prefix ci [] ts = True"
| "rx_prefix ci (p # ps) [] = False"
| "rx_prefix ci (p # ps) (t # ts) = (rx_char ci p t \<and> rx_prefix ci ps ts)"

text \<open>An unanchored search: the pattern matches at some position of the text.\<close>

fun rx_find :: "bool \<Rightarrow> string \<Rightarrow> string \<Rightarrow> bool" where
  "rx_find ci ps [] = rx_prefix ci ps []"
| "rx_find ci ps (t # ts) = (rx_prefix ci ps (t # ts) \<or> rx_find ci ps ts)"

section \<open>The document store\<close>

text \<open>
  \<open>database.py\<close> is not among the source files; \<open>main.py\<close> imports the handle \<open>db\<close>
  and the two accessors from it. The handle is \<open>None\<close> or a database, which has a name
  (read with \<open>getattr(db, 'name', ...)\<close>), may be reachable but failing (every operation
  then raises with a message), holds its collections in insertion order, and hands out
  fresh identifiers. Patterns that use an operator other than the dot are left to the
  store's own engine \<open>regex_engine\<close>: it rejects a pattern (\<open>None\<close>) or gives the
  predicate on texts that the pattern and its options denote.
\<close>

record database =
  name :: "string option"
  fault :: "string option"
  collections :: "(string \<times> document list) list"
  next_id :: nat
  regex_engine :: "string \<Rightarrow> string \<Rightarrow> (string \<Rightarrow> bool) option"

datatype error =
    ValidationError "(string list \<times> string) list"
  | StorageError string

definition collection :: "database \<Rightarrow> string \<Rightarrow> document list" where
  "collection d c = (case map_of (collections d) c of None \<Rightarrow> [] | Some ds \<Rightarrow> ds)"

definition list_collection_names :: "database \<Rightarrow> string + string list" where
  "list_collection_names d =
     (case fault d of Some m \<Rightarrow> Inl m | None \<Rightarrow> Inr (map fst (collections d)))"

definition regex_compile :: "database \<Rightarrow> string \<Rightarrow> string \<Rightarrow> (string \<Rightarrow> bool) option" where
  "regex_compile d pat opts =
     (if list_all (\<lambda>c. plain c \<or> c = CHR ''.'') pat
      then Some (rx_find (CHR ''i'' \<in> set opts) pat)
      else regex_engine d pat opts)"

text \<open>
  A condition on the value of a field. Equality and \<open>$in\<close> on a list-valued field look
  at the elements of the list, as the tag filter of \<open>list_posts\<close> needs.
\<close>

fun cond_holds :: "database \<Rightarrow> cond \<Rightarrow> jv \<Rightarrow> bool" where
  "cond_holds d (Eq s) v = (v = JStr s)"
| "cond_holds d (In ss) (JStr x) = (x \<in> set ss)"
| "cond_holds d (In ss) (JList vs) = list_ex (\<lambda>s. JStr s \<in> set vs) ss"
| "cond_holds d (In ss) v = False"
| "cond_holds d (Regex pat opts) (JStr t) =
     (case regex_compile d pat opts of None \<Rightarrow> False | Some m \<Rightarrow> m t)"
| "cond_holds d (Regex pat opts) v = False"

fun matches :: "database \<Rightarrow> document \<Rightarrow> clause \<Rightarrow> bool" where
  "matches d doc (Fld k c) = (case map_of doc k of None \<Rightarrow> False | Some v \<Rightarrow> cond_holds d c v)"
| "matches d doc (Or qs) = list_ex (list_all (matches d doc)) qs"

fun accepted :: "database \<Rightarrow> clause \<Rightarrow> bool" where
  "accepted d (Fld k (Regex pat opts)) = (regex_compile d pat opts \<noteq> None)"
| "accepted d (Fld k c) = True"
| "accepted d (Or qs) = list_all (list_all (accepted d)) qs"

definition unavailable :: string where
  "unavailable = ''Database not available''"

fun show_nat :: "nat \<Rightarrow> string" where
  "show_nat n =
     (if n < 10 then [''0123456789'' ! n]
      else show_nat (n div 10) @ [''0123456789'' ! (n mod 10)])"

declare show_nat.simps [simp del]

text \<open>
  Modelled from the spec: \<open>database.create_document\<close> is missing from the sources.
  Insert-one(collection, record) serializes the validated record, stores it and returns a
  newly generated unique identifier; it fails with a storage error if the store is
  unreachable. The stored document mirrors the record plus the identifier field, here
  \<open>_id\<close>; a collection keeps its documents in insertion order.
\<close>

fun model_dump :: "jv \<Rightarrow> document" where
  "model_dump (JObj kvs) = kvs"
| "model_dump v = []"

definition create_document ::
  "database option \<Rightarrow> string \<Rightarrow> jv \<Rightarrow> (error + string) \<times> database option" where
  "create_document db c data =
     (case db of
        None \<Rightarrow> (Inl (StorageError unavailable), db)
      | Some d \<Rightarrow>
          (case fault d of
             Some m \<Rightarrow> (Inl (StorageError m), db)
           | None \<Rightarrow>
               (let new_id = show_nat (next_id d);
                    doc = (''_id'', JStr new_id) # model_dump data
                in (Inr new_id,
                    Some (d\<lparr>collections := AList.update c (collection d c @ [doc]) (collections d),
                            next_id := Suc (next_id d)\<rparr>)))))"

text \<open>
  Modelled from the spec: \<open>database.get_documents\<close> is missing from the sources.
  Find-many(collection, filter, limit) returns up to \<open>limit\<close> matching documents in
  store order, the empty sequence when none matches, and fails with a storage error if
  the store is unreachable (or, here, rejects a pattern of the filter).
\<close>

definition get_documents ::
  "database option \<Rightarrow> string \<Rightarrow> query \<Rightarrow> nat \<Rightarrow> error + document list" where
  "get_documents db c q limit =
     (case db of
        None \<Rightarrow> Inl (StorageError unavailable)
      | Some d \<Rightarrow>
          (case fault d of
             Some m \<Rightarrow> Inl (StorageError m)
           | None \<Rightarrow>
               (if list_all (accepted d) q
                then Inr (take limit (filter (\<lambda>doc. list_all (matches d doc) q) (collection d c)))
                else Inl (StorageError ''Regular expression is invalid''))))"

section \<open>List handlers of main.py\<close>

definition truthy :: "string option \<Rightarrow> bool" where
  "truthy p = (case p of None \<Rightarrow> False | Some s \<Rightarrow> s \<noteq> [])"

definition list_users :: "database option \<Rightarrow> error + document list" where
  "list_users db = get_documents db ''user'' [] 50"

definition list_posts ::
  "database option \<Rightarrow> string option \<Rightarrow> string option \<Rightarrow> error + document list" where
  "list_posts db tag author_id =
     (let query = [];
          query = (if truthy tag then query @ [Fld ''tags'' (In [the tag])] else query);
          query = (if truthy author_id then query @ [Fld ''author_id'' (Eq (the author_id))] else query)
      in get_documents db ''post'' query 100)"

definition get_messages ::
  "database option \<Rightarrow> string \<Rightarrow> string option \<Rightarrow> error + document list" where
  "get_messages db user_id with_user =
     (let q = [Or [[Fld ''sender_id'' (Eq user_id)], [Fld ''recipient_id'' (Eq user_id)]]];
          q = (if truthy with_user
               then [Or [[Fld ''sender_id'' (Eq user_id), Fld ''recipient_id'' (Eq (the with_user))],
                         [Fld ''sender_id'' (Eq (the with_user)), Fld ''recipient_id'' (Eq user_id)]]]
               else q)
      in get_documents db ''message'' q 200)"

definition list_notifications :: "database option \<Rightarrow> string \<Rightarrow> error + document list" where
  "list_notifications db user_id = get_documents db ''notification'' [Fld ''user_id'' (Eq user_id)] 100"


definition recommendations :: "database option \<Rightarrow> string option \<Rightarrow> error + document list" where
  "recommendations db user_id =
     get_documents db ''post'' [Fld ''visibility'' (In [''public'', ''followers''])] 20"

section \<open>Schemas of schemas.py\<close>

text \<open>
  A field of a model has a name, a type and, unless it is required, a default. The types
  are those the annotations of \<open>schemas.py\<close> use: \<open>str\<close>, \<open>int\<close> (with the bound of
  \<open>Field(..., ge=0)\<close> when there is one), \<open>bool\<close>, \<open>Literal[...]\<close>, \<open>HttpUrl\<close>,
  \<open>Optional[...]\<close>, \<open>List[...]\<close>, \<open>Dict[str, ...]\<close> and a nested model.
\<close>

datatype ftype =
    TStr
  | TInt "int option"
  | TBool
  | TLiteral "string list"
  | THttpUrl
  | TOptional ftype
  | TList ftype
  | TDict ftype
  | TModel "(string \<times> ftype \<times> jv option) list"

type_synonym schema = "(string \<times> ftype \<times> jv option) list"

type_synonym verrors = "(string list \<times> string) list"

definition at :: "string \<Rightarrow> string list \<times> string \<Rightarrow> string list \<times> string" where
  "at k e = (k # fst e, snd e)"

fun collect_items :: "nat \<Rightarrow> (verrors + jv) list \<Rightarrow> verrors \<times> jv list" where
  "collect_items i [] = ([], [])"
| "collect_items i (r # rs) =
     (let (es, vs) = collect_items (Suc i) rs
      in case r of
           Inl e \<Rightarrow> (map (at (show_nat i)) e @ es, vs)
         | Inr v \<Rightarrow> (es, v # vs))"

fun collect_entries :: "(string \<times> (verrors + jv)) list \<Rightarrow> verrors \<times> document" where
  "collect_entries [] = ([], [])"
| "collect_entries ((k, r) # rs) =
     (let (es, kvs) = collect_entries rs
      in case r of
           Inl e \<Rightarrow> (map (at k) e @ es, kvs)
         | Inr v \<Rightarrow> (es, (k, v) # kvs))"

text \<open>
  Request bodies are validated in the library's lax mode: an \<open>int\<close> field also takes a
  boolean (\<open>true\<close> is 1) and a string that the library's integer parser reads, a \<open>bool\<close>
  field also takes 0 and 1 and the strings listed below in any letter case; a \<open>str\<close>
  field takes strings only and a \<open>Literal\<close> field the listed strings only. The integer
  parser for strings and the URL parser belong to the library and are parameters.
\<close>

record parsers =
  url_ok :: "string \<Rightarrow> bool"
  str_as_int :: "string \<Rightarrow> int option"

fun coerce_int :: "parsers \<Rightarrow> jv \<Rightarrow> int option" where
  "coerce_int lib (JInt n) = Some n"
| "coerce_int lib (JBool b) = Some (if b then 1 else 0)"
| "coerce_int lib (JStr s) = str_as_int lib s"
| "coerce_int lib v = None"

fun coerce_bool :: "jv \<Rightarrow> bool option" where
  "coerce_bool (JBool b) = Some b"
| "coerce_bool (JInt n) = (if n = 0 then Some False else if n = 1 then Some True else None)"
| "coerce_bool (JStr s) =
     (if map lower s \<in> set [''0'', ''off'', ''f'', ''false'', ''n'', ''no''] then Some False
      else if map lower s \<in> set [''1'', ''on'', ''t'', ''true'', ''y'', ''yes''] then Some True
      else None)"
| "coerce_bool v = None"

text \<open>
  Validation of a JSON value against a type gives the validated value or the list of all
  errors, each with the path of the offending field and the violated constraint. A field
  missing from the payload takes its default, unvalidated; extra fields of the payload are
  dropped.
\<close>

function validate_type :: "parsers \<Rightarrow> ftype \<Rightarrow> jv \<Rightarrow> verrors + jv"
  and validate_fields :: "parsers \<Rightarrow> schema \<Rightarrow> document \<Rightarrow> verrors \<times> document" where
  "validate_type lib TStr v =
     (case v of JStr s \<Rightarrow> Inr v | _ \<Rightarrow> Inl [([], ''string_type'')])"
| "validate_type lib (TInt ge) v =
     (case coerce_int lib v of
        None \<Rightarrow> Inl [([], ''int_parsing'')]
      | Some n \<Rightarrow>
          (case ge of
             None \<Rightarrow> Inr (JInt n)
           | Some b \<Rightarrow> if b \<le> n then Inr (JInt n) else Inl [([], ''greater_than_equal'')]))"
| "validate_type lib TBool v =
     (case coerce_bool v of
        None \<Rightarrow> Inl [([], ''bool_parsing'')]
      | Some b \<Rightarrow> Inr (JBool b))"
| "validate_type lib (TLiteral allowed) v =
     (case v of
        JStr s \<Rightarrow> if s \<in> set allowed then Inr v else Inl [([], ''literal_error'')]
      | _ \<Rightarrow> Inl [([], ''literal_error'')])"
| "validate_type lib THttpUrl v =
     (case v of
        JStr s \<Rightarrow> if url_ok lib s then Inr v else Inl [([], ''url_parsing'')]
      | _ \<Rightarrow> Inl [([], ''url_type'')])"
| "validate_type lib (TOptional t) v =
     (case v of JNull \<Rightarrow> Inr JNull | _ \<Rightarrow> validate_type lib t v)"
| "validate_type lib (TList t) v =
     (case v of
        JList vs \<Rightarrow>
          (case collect_items 0 (map (validate_type lib t) vs) of
             ([], ws) \<Rightarrow> Inr (JList ws)
           | (es, ws) \<Rightarrow> Inl es)
      | _ \<Rightarrow> Inl [([], ''list_type'')])"
| "validate_type lib (TDict t) v =
     (case v of
        JObj kvs \<Rightarrow>
          (case collect_entries (map (\<lambda>(k, w). (k, validate_type lib t w)) kvs) of
             ([], ws) \<Rightarrow> Inr (JObj ws)
           | (es, ws) \<Rightarrow> Inl es)
      | _ \<Rightarrow> Inl [([], ''dict_type'')])"
| "validate_type lib (TModel fs) v =
     (case v of
        JObj obj \<Rightarrow>
          (case validate_fields lib fs obj of
             ([], doc) \<Rightarrow> Inr (JObj doc)
           | (es, doc) \<Rightarrow> Inl es)
      | _ \<Rightarrow> Inl [([], ''model_type'')])"
| "validate_fields lib [] obj = ([], [])"
| "validate_fields lib ((k, t, dflt) # fs) obj =
     (let (es, doc) = validate_fields lib fs obj
      in case map_of obj k of
           None \<Rightarrow>
             (case dflt of
                None \<Rightarrow> (([k], ''missing'') # es, doc)
              | Some v \<Rightarrow> (es, (k, v) # doc))
         | Some v \<Rightarrow>
             (case validate_type lib t v of
                Inl e \<Rightarrow> (map (at k) e @ es, doc)
              | Inr w \<Rightarrow> (es, (k, w) # doc)))"
  by pat_completeness auto
termination
  by (relation "measure (\<lambda>x. case x of
        Inl (lib, t, v) \<Rightarrow> 2 * size t
      | Inr (lib, fs, obj) \<Rightarrow> 2 * size (TModel fs) - 1)") auto

text \<open>
  What \<open>schemas.py\<close> asks of a payload, stated apart from the validator: a value is
  accepted at a type when it is of the type or converts to it within the bound, has one of
  the enumerated values, is a well-formed URL, or is built of accepted parts; a payload
  satisfies a model when it is an object in which every field of the model is accepted at
  its type, or is absent and has a default.
\<close>

function accepts :: "parsers \<Rightarrow> ftype \<Rightarrow> jv \<Rightarrow> bool"
  and satisfies :: "parsers \<Rightarrow> schema \<Rightarrow> document \<Rightarrow> bool" where
  "accepts lib TStr v = (case v of JStr s \<Rightarrow> True | _ \<Rightarrow> False)"
| "accepts lib (TInt ge) v =
     (case coerce_int lib v of
        None \<Rightarrow> False
      | Some n \<Rightarrow> (case ge of None \<Rightarrow> True | Some b \<Rightarrow> b \<le> n))"
| "accepts lib TBool v = (coerce_bool v \<noteq> None)"
| "accepts lib (TLiteral allowed) v = (case v of JStr s \<Rightarrow> s \<in> set allowed | _ \<Rightarrow> False)"
| "accepts lib THttpUrl v = (case v of JStr s \<Rightarrow> url_ok lib s | _ \<Rightarrow> False)"
| "accepts lib (TOptional t) v = (case v of JNull \<Rightarrow> True | _ \<Rightarrow> accepts lib t v)"
| "accepts lib (TList t) v = (case v of JList vs \<Rightarrow> list_all (accepts lib t) vs | _ \<Rightarrow> False)"
| "accepts lib (TDict t) v =
     (case v of JObj kvs \<Rightarrow> list_all (\<lambda>(k, w). accepts lib t w) kvs | _ \<Rightarrow> False)"
| "accepts lib (TModel fs) v = (case v of JObj obj \<Rightarrow> satisfies lib fs obj | _ \<Rightarrow> False)"
| "satisfies lib [] obj = True"
| "satisfies lib ((k, t, dflt) # fs) obj =
     ((case map_of obj k of None \<Rightarrow> dflt \<noteq> None | Some v \<Rightarrow> accepts lib t v) \<and>
      satisfies lib fs obj)"
  by pat_completeness auto
termination
  by (relation "measure (\<lambda>x. case x of
        Inl (lib, t, v) \<Rightarrow> 2 * size t
      | Inr (lib, fs, obj) \<Rightarrow> 2 * size (TModel fs) - 1)") auto

definition ProfileSettings :: schema where
  "ProfileSettings =
     [(''bio'', TOptional TStr, Some JNull),
      (''avatar_url'', TOptional THttpUrl, Some JNull),
      (''banner_url'', TOptional THttpUrl, Some JNull),
      (''theme'', TOptional TStr, Some (JStr ''light'')),
      (''links'', TOptional (TList THttpUrl), Some JNull),
      (''privacy_level'', TLiteral [''public'', ''followers'', ''subscribers'', ''private''],
         Some (JStr ''public''))]"

definition User :: schema where
  "User =
     [(''username'', TStr, None),
      (''email'', TStr, None),
      (''name'', TOptional TStr, Some JNull),
      (''settings'', TOptional (TModel ProfileSettings), Some JNull),
      (''is_creator'', TBool, Some (JBool True)),
      (''verified'', TBool, Some (JBool False))]"

definition SubscriptionPlan :: schema where
  "SubscriptionPlan =
     [(''creator_id'', TStr, None),
      (''title'', TStr, None),
      (''price_cents'', TInt (Some 0), None),
      (''currency'', TStr, Some (JStr ''USD'')),
      (''benefits'', TList TStr, Some (JList [])),
      (''tier'', TLiteral [''bronze'', ''silver'', ''gold'', ''platinum''], Some (JStr ''bronze''))]"

definition Subscription :: schema where
  "Subscription =
     [(''creator_id'', TStr, None),
      (''subscriber_id'', TStr, None),
      (''plan_id'', TStr, None),
      (''status'', TLiteral [''active'', ''canceled'', ''past_due''], Some (JStr ''active'')),
      (''renews_at'', TOptional TStr, Some JNull)]"

definition Payment :: schema where
  "Payment =
     [(''user_id'', TStr, None),
      (''amount_cents'', TInt None, None),
      (''currency'', TStr, Some (JStr ''USD'')),
      (''purpose'', TLiteral [''subscription'', ''tip'', ''purchase''], Some (JStr ''subscription'')),
      (''provider'', TLiteral [''stripe'', ''paypal'', ''mock''], Some (JStr ''mock'')),
      (''status'', TLiteral [''initiated'', ''succeeded'', ''failed''], Some (JStr ''initiated'')),
      (''metadata'', TOptional (TDict TStr), Some JNull)]"

definition DRMPolicy :: schema where
  "DRMPolicy =
     [(''watermark'', TBool, Some (JBool True)),
      (''expire_seconds'', TOptional (TInt None), Some (JInt 3600)),
      (''allow_download'', TBool, Some (JBool False))]"

definition Post :: schema where
  "Post =
     [(''author_id'', TStr, None),
      (''content_type'', TLiteral [''text'', ''image'', ''short_video'', ''live_stream'', ''audio''], None),
      (''text'', TOptional TStr, Some JNull),
      (''media_url'', TOptional THttpUrl, Some JNull),
      (''thumbnail_url'', TOptional THttpUrl, Some JNull),
      (''tags'', TList TStr, Some (JList [])),
      (''is_premium'', TBool, Some (JBool False)),
      (''required_tier'', TOptional TStr, Some JNull),
      (''drm'', TOptional (TModel DRMPolicy), Some JNull),
      (''visibility'', TLiteral [''public'', ''followers'', ''subscribers'', ''private''],
         Some (JStr ''public''))]"

definition Comment :: schema where
  "Comment =
     [(''post_id'', TStr, None),
      (''author_id'', TStr, None),
      (''text'', TStr, None)]"

definition Like :: schema where
  "Like =
     [(''post_id'', TStr, None),
      (''user_id'', TStr, None)]"

definition Message :: schema where
  "Message =
     [(''sender_id'', TStr, None),
      (''recipient_id'', TStr, None),
      (''body'', TStr, None),
      (''thread_id'', TOptional TStr, Some JNull)]"

definition Group :: schema where
  "Group =
     [(''owner_id'', TStr, None),
      (''name'', TStr, None),
      (''description'', TOptional TStr, Some JNull),
      (''members'', TList TStr, Some (JList []))]"

definition Notification :: schema where
  "Notification =
     [(''user_id'', TStr, None),
      (''type'', TLiteral [''like'', ''comment'', ''message'', ''subscription'', ''system''], None),
      (''title'', TStr, None),
      (''body'', TOptional TStr, Some JNull),
      (''read'', TBool, Some (JBool False))]"

definition Stream :: schema where
  "Stream =
     [(''creator_id'', TStr, None),
      (''title'', TStr, None),
      (''status'', TLiteral [''scheduled'', ''live'', ''ended''], Some (JStr ''scheduled'')),
      (''start_time'', TOptional TStr, Some JNull),
      (''end_time'', TOptional TStr, Some JNull),
      (''access'', TLiteral [''public'', ''subscribers'', ''pay_per_view''], Some (JStr ''public''))]"

definition AudioRoom :: schema where
  "AudioRoom =
     [(''host_id'', TStr, None),
      (''topic'', TStr, None),
      (''status'', TLiteral [''scheduled'', ''live'', ''ended''], Some (JStr ''scheduled'')),
      (''speakers'', TList TStr, Some (JList []))]"

definition AnalyticsEvent :: schema where
  "AnalyticsEvent =
     [(''user_id'', TOptional TStr, Some JNull),
      (''event_name'', TStr, None),
      (''properties'', TDict TStr, Some (JObj []))]"

definition SearchIndex :: schema where
  "SearchIndex =
     [(''doc_type'', TLiteral [''user'', ''post'', ''group''], None),
      (''ref_id'', TStr, None),
      (''tokens'', TList TStr, None)]"

definition SearchQuery :: schema where
  "SearchQuery = [(''q'', TStr, None)]"

section \<open>Create handlers of main.py\<close>

text \<open>
  A handler with a parameter annotated by a model receives the request body validated
  against that model; a body that fails validation is answered with the validation
  errors and the handler does not run. \<open>create\<close> is the body all create handlers share:
  \<open>new_id = create_document(collection, record); return {"id": new_id}\<close>.
\<close>

type_synonym 'a response = "(error + 'a) \<times> database option"

definition with_body ::
  "parsers \<Rightarrow> schema \<Rightarrow> (database option \<Rightarrow> jv \<Rightarrow> 'a response) \<Rightarrow>
     database option \<Rightarrow> jv \<Rightarrow> 'a response" where
  "with_body lib model handler db payload =
     (case validate_type lib (TModel model) payload of
        Inl es \<Rightarrow> (Inl (ValidationError es), db)
      | Inr record \<Rightarrow> handler db record)"

definition create :: "string \<Rightarrow> database option \<Rightarrow> jv \<Rightarrow> document response" where
  "create c db record =
     (case create_document db c record of
        (Inl e, db') \<Rightarrow> (Inl e, db')
      | (Inr new_id, db') \<Rightarrow> (Inr [(''id'', JStr new_id)], db'))"

definition create_user :: "parsers \<Rightarrow> database option \<Rightarrow> jv \<Rightarrow> document response" where
  "create_user lib = with_body lib User (create ''user'')"

definition create_post :: "parsers \<Rightarrow> database option \<Rightarrow> jv \<Rightarrow> document response" where
  "create_post lib = with_body lib Post (create ''post'')"

definition add_comment :: "parsers \<Rightarrow> database option \<Rightarrow> jv \<Rightarrow> document response" where
  "add_comment lib = with_body lib Comment (create ''comment'')"

definition add_like :: "parsers \<Rightarrow> database option \<Rightarrow> jv \<Rightarrow> document response" where
  "add_like lib = with_body lib Like (create ''like'')"

definition send_message :: "parsers \<Rightarrow> database option \<Rightarrow> jv \<Rightarrow> document response" where
  "send_message lib = with_body lib Message (create ''message'')"

definition create_plan :: "parsers \<Rightarrow> database option \<Rightarrow> jv \<Rightarrow> document response" where
  "create_plan lib = with_body lib SubscriptionPlan (create ''subscriptionplan'')"

definition create_subscription ::
  "parsers \<Rightarrow> database option \<Rightarrow> jv \<Rightarrow> document response" where
  "create_subscription lib = with_body lib Subscription (create ''subscription'')"

definition create_payment :: "parsers \<Rightarrow> database option \<Rightarrow> jv \<Rightarrow> document response" where
  "create_payment lib = with_body lib Payment (create ''payment'')"

definition create_notification ::
  "parsers \<Rightarrow> database option \<Rightarrow> jv \<Rightarrow> document response" where
  "create_notification lib = with_body lib Notification (create ''notification'')"

definition create_stream :: "parsers \<Rightarrow> database option \<Rightarrow> jv \<Rightarrow> document response" where
  "create_stream lib = with_body lib Stream (create ''stream'')"

definition create_audio_room ::
  "parsers \<Rightarrow> database option \<Rightarrow> jv \<Rightarrow> document response" where
  "create_audio_room lib = with_body lib AudioRoom (create ''audioroom'')"

definition track :: "parsers \<Rightarrow> database option \<Rightarrow> jv \<Rightarrow> document response" where
  "track lib = with_body lib AnalyticsEvent (create ''analyticsevent'')"

text \<open>The routes that create a document, each with its model and its handler.\<close>

datatype route =
    Users | Posts | Comments | Likes | Messages | Plans | Subscriptions | Payments
  | Notifications | Streams | AudioRooms | Analytics

fun model_of :: "route \<Rightarrow> schema" where
  "model_of Users = User"
| "model_of Posts = Post"
| "model_of Comments = Comment"
| "model_of Likes = Like"
| "model_of Messages = Message"
| "model_of Plans = SubscriptionPlan"
| "model_of Subscriptions = Subscription"
| "model_of Payments = Payment"
| "model_of Notifications = Notification"
| "model_of Streams = Stream"
| "model_of AudioRooms = AudioRoom"
| "model_of Analytics = AnalyticsEvent"

fun post :: "route \<Rightarrow> parsers \<Rightarrow> database option \<Rightarrow> jv \<Rightarrow> document response" where
  "post Users = create_user"
| "post Posts = create_post"
| "post Comments = add_comment"
| "post Likes = add_like"
| "post Messages = send_message"
| "post Plans = create_plan"
| "post Subscriptions = create_subscription"
| "post Payments = create_payment"
| "post Notifications = create_notification"
| "post Streams = create_stream"
| "post AudioRooms = create_audio_room"
| "post Analytics = track"

section \<open>The diagnostics handler\<close>

text \<open>
  The pictographs that open the status texts of \<open>test_database\<close> lie outside the
  characters of \<open>string\<close>; a status text is the pictograph, if any, and the text after it.
\<close>

datatype mark = Check | Cross | Warning

type_synonym status = "mark option \<times> string"

record diagnostics =
  backend :: status
  database :: status
  database_url :: status
  database_name :: status
  connection_status :: status
  collection_names :: "string list"

text \<open>
  \<open>try: ... except Exception as e: ...\<close>: a block yields the response, or raises with
  a message, leaving the response as changed so far.
\<close>

definition try_except ::
  "(string \<times> diagnostics) + diagnostics \<Rightarrow> (string \<Rightarrow> diagnostics \<Rightarrow> diagnostics) \<Rightarrow> diagnostics" where
  "try_except block handler = (case block of Inl (e, r) \<Rightarrow> handler e r | Inr r \<Rightarrow> r)"

definition test_database :: "database option \<Rightarrow> error + diagnostics" where
  "test_database db =
     (let response =
            \<lparr>backend = (Some Check, '' Running''),
             database = (Some Cross, '' Not Available''),
             database_url = (Some Cross, '' Not Set''),
             database_name = (Some Cross, '' Not Set''),
             connection_status = (None, ''Not Connected''),
             collection_names = []\<rparr>
      in Inr (try_except
           (case db of
              None \<Rightarrow> Inr response
            | Some d \<Rightarrow>
                (let response = response
                       \<lparr>database := (Some Check, '' Available''),
                        database_url := (Some Check, '' Set''),
                        database_name :=
                          (case name d of
                             Some n \<Rightarrow> (None, n)
                           | None \<Rightarrow> (Some Check, '' Connected'')),
                        connection_status := (None, ''Connected'')\<rparr>
                 in Inr (try_except
                      (case list_collection_names d of
                         Inl e \<Rightarrow> Inl (e, response)
                       | Inr names \<Rightarrow>
                           Inr (response
                             \<lparr>collection_names := take 20 names,
                              database := (Some Check, '' Connected & Working'')\<rparr>))
                      (\<lambda>e response. response
                         \<lparr>database := (Some Warning, '' Connected but Error: '' @ take 80 e)\<rparr>))))
           (\<lambda>e response. response\<lparr>database := (Some Cross, '' Error: '' @ take 80 e)\<rparr>)))"

section \<open>Documents that conform to a model\<close>

text \<open>
  A stored document conforms to a model when each field of the model is present with a
  value of the field's type. The claims about the list handlers speak of the tags, the
  text and the visibility of a post: they are about collections of conforming documents.
\<close>

function well_typed :: "ftype \<Rightarrow> jv \<Rightarrow> bool"
  and conforms :: "schema \<Rightarrow> document \<Rightarrow> bool" where
  "well_typed TStr v = (case v of JStr s \<Rightarrow> True | _ \<Rightarrow> False)"
| "well_typed (TInt ge) v =
     (case v of JInt n \<Rightarrow> (case ge of None \<Rightarrow> True | Some b \<Rightarrow> b \<le> n) | _ \<Rightarrow> False)"
| "well_typed TBool v = (case v of JBool b \<Rightarrow> True | _ \<Rightarrow> False)"
| "well_typed (TLiteral allowed) v = (case v of JStr s \<Rightarrow> s \<in> set allowed | _ \<Rightarrow> False)"
| "well_typed THttpUrl v = (case v of JStr s \<Rightarrow> True | _ \<Rightarrow> False)"
| "well_typed (TOptional t) v = (case v of JNull \<Rightarrow> True | _ \<Rightarrow> well_typed t v)"
| "well_typed (TList t) v = (case v of JList vs \<Rightarrow> list_all (well_typed t) vs | _ \<Rightarrow> False)"
| "well_typed (TDict t) v =
     (case v of JObj kvs \<Rightarrow> list_all (\<lambda>(k, w). well_typed t w) kvs | _ \<Rightarrow> False)"
| "well_typed (TModel fs) v = (case v of JObj obj \<Rightarrow> conforms fs obj | _ \<Rightarrow> False)"
| "conforms [] obj = True"
| "conforms ((k, t, dflt) # fs) obj =
     ((case map_of obj k of None \<Rightarrow> False | Some v \<Rightarrow> well_typed t v) \<and> conforms fs obj)"
  by pat_completeness auto
termination
  by (relation "measure (\<lambda>x. case x of
        Inl (t, v) \<Rightarrow> 2 * size t
      | Inr (fs, obj) \<Rightarrow> 2 * size (TModel fs) - 1)") auto

text \<open>What the claims say of a document, in the words of the specification.\<close>

definition has_tag :: "string \<Rightarrow> document \<Rightarrow> bool" where
  "has_tag x doc = (case map_of doc ''tags'' of Some (JList ts) \<Rightarrow> JStr x \<in> set ts | _ \<Rightarrow> False)"

definition has_author :: "string \<Rightarrow> document \<Rightarrow> bool" where
  "has_author y doc = (map_of doc ''author_id'' = Some (JStr y))"


definition visibility_in :: "string list \<Rightarrow> document \<Rightarrow> bool" where
  "visibility_in vs doc =
     (case map_of doc ''visibility'' of Some (JStr v) \<Rightarrow> v \<in> set vs | _ \<Rightarrow> False)"

definition sent :: "string \<Rightarrow> string \<Rightarrow> document \<Rightarrow> bool" where
  "sent a b doc =
     (map_of doc ''sender_id'' = Some (JStr a) \<and> map_of doc ''recipient_id'' = Some (JStr b))"

definition involves :: "string \<Rightarrow> document \<Rightarrow> bool" where
  "involves a doc =
     (map_of doc ''sender_id'' = Some (JStr a) \<or> map_of doc ''recipient_id'' = Some (JStr a))"

section \<open>An example store\<close>

definition example_post :: "string \<Rightarrow> string \<Rightarrow> jv \<Rightarrow> string list \<Rightarrow> string \<Rightarrow> document" where
  "example_post i a t ts v =
     [(''_id'', JStr i), (''author_id'', JStr a), (''content_type'', JStr ''text''),
      (''text'', t), (''media_url'', JNull), (''thumbnail_url'', JNull),
      (''tags'', JList (map JStr ts)), (''is_premium'', JBool False),
      (''required_tier'', JNull), (''drm'', JNull), (''visibility'', JStr v)]"

definition example_message :: "string \<Rightarrow> string \<Rightarrow> string \<Rightarrow> document" where
  "example_message i a b =
     [(''_id'', JStr i), (''sender_id'', JStr a), (''recipient_id'', JStr b),
      (''body'', JStr ''hi''), (''thread_id'', JNull)]"

definition example_store :: database where
  "example_store =
     \<lparr>name = Some ''app'', fault = None,
      collections =
        [(''post'',
            [example_post ''0'' ''u1'' (JStr ''Hello World'') [''intro''] ''public'',
             example_post ''1'' ''u2'' (JStr ''abc'') [] ''private'',
             example_post ''2'' ''u1'' JNull [''intro'', ''news''] ''followers'',
             example_post ''3'' ''u2'' (JStr ''say hello'') [''news''] ''subscribers'']),
         (''message'',
            [example_message ''4'' ''u1'' ''u2'',
             example_message ''5'' ''u2'' ''u1'',
             example_message ''6'' ''u1'' ''u3'',
             example_message ''7'' ''u3'' ''u2''])],
      next_id = 8,
      regex_engine = undefined\<rparr>"

text \<open>A store whose user collection already holds 50 documents.\<close>

definition example_user :: "string \<Rightarrow> string \<Rightarrow> string \<Rightarrow> document" where
  "example_user i u e =
     [(''_id'', JStr i), (''username'', JStr u), (''email'', JStr e), (''name'', JNull),
      (''settings'', JNull), (''is_creator'', JBool True), (''verified'', JBool False)]"

definition full_users :: "document list" where
  "full_users = map (\<lambda>i. example_user (show_nat i) ''bob'' ''bob@example.org'') [0..<50]"

definition full_store :: database where
  "full_store =
     \<lparr>name = Some ''app'', fault = None,
      collections = [(''user'', full_users)],
      next_id = 50,
      regex_engine = undefined\<rparr>"

text \<open>
  Parsers for the examples: every string passes for a URL, and an integer is read from
  decimal digits with an optional minus sign.
\<close>

definition digit_of :: "char \<Rightarrow> nat option" where
  "digit_of = map_of (zip ''0123456789'' [0, 1, 2, 3, 4, 5, 6, 7, 8, 9])"

fun digits_value :: "nat \<Rightarrow> string \<Rightarrow> nat option" where
  "digits_value acc [] = Some acc"
| "digits_value acc (c # cs) =
     (case digit_of c of None \<Rightarrow> None | Some d \<Rightarrow> digits_value (10 * acc + d) cs)"

definition decimal :: "string \<Rightarrow> int option" where
  "decimal s =
     (case s of
        [] \<Rightarrow> None
      | c # cs \<Rightarrow>
          if c = CHR ''-'' then (if cs = [] then None else map_option (\<lambda>n. - int n) (digits_value 0 cs))
          else map_option int (digits_value 0 s))"

definition example_parsers :: parsers where
  "example_parsers = \<lparr>url_ok = (\<lambda>s. True), str_as_int = decimal\<rparr>"

section \<open>Reading the store\<close>

lemma get_documents_filter:
  assumes "fault d = None" and "list_all (accepted d) q"
    and "\<And>doc. doc \<in> set (collection d c) \<Longrightarrow> list_all (matches d doc) q = P doc"
  shows "get_documents (Some d) c q limit = Inr (take limit (filter P (collection d c)))"
proof -
  have "filter (\<lambda>doc. list_all (matches d doc) q) (collection d c) = filter P (collection d c)"
    using assms(3) by (rule filter_cong [OF refl])
  with assms(1,2) show ?thesis
    by (simp add: get_documents_def)
qed

lemma take_filter_subset: "set (take n (filter P xs)) \<subseteq> set xs"
  by (meson filter_is_subset set_take_subset subset_trans)

subsection \<open>Patterns without operators\<close>




subsection \<open>Fields of a conforming post\<close>

lemma conforms_field:
  "conforms fs obj \<Longrightarrow> (k, t, dflt) \<in> set fs \<Longrightarrow> \<exists>v. map_of obj k = Some v \<and> well_typed t v"
  by (induction fs) (auto split: option.splits)

lemma well_typed_TList:
  "well_typed (TList t) v \<Longrightarrow> \<exists>vs. v = JList vs \<and> list_all (well_typed t) vs"
  by (cases v) simp_all

lemma well_typed_TLiteral:
  "well_typed (TLiteral allowed) v \<Longrightarrow> \<exists>s. v = JStr s \<and> s \<in> set allowed"
  by (cases v) simp_all



lemma conforms_Post_tags:
  assumes "conforms Post doc"
  shows "\<exists>ts. map_of doc ''tags'' = Some (JList ts)"
proof -
  have "(''tags'', TList TStr, Some (JList [])) \<in> set Post"
    by (simp add: Post_def)
  from conforms_field [OF assms this] show ?thesis
    by (blast dest: well_typed_TList)
qed

lemma conforms_Post_visibility:
  assumes "conforms Post doc"
  shows "\<exists>v. map_of doc ''visibility'' = Some (JStr v)"
proof -
  have "(''visibility'', TLiteral [''public'', ''followers'', ''subscribers'', ''private''],
          Some (JStr ''public'')) \<in> set Post"
    by (simp add: Post_def)
  from conforms_field [OF assms this] show ?thesis
    by (blast dest: well_typed_TLiteral)
qed


lemma conforms_example_post:
  "v \<in> set [''public'', ''followers'', ''subscribers'', ''private''] \<Longrightarrow>
   t = JNull \<or> (\<exists>s. t = JStr s) \<Longrightarrow> conforms Post (example_post i a t ts v)"
  by (auto simp: Post_def example_post_def list_all_iff)

lemma example_store_conforms:
  "list_all (conforms Post) (collection example_store ''post'')"
  by (simp add: example_store_def collection_def conforms_example_post)

subsection \<open>What the filters of the handlers select\<close>

lemma matches_pair:
  "list_all (matches d doc)
     [Or [[Fld ''sender_id'' (Eq a), Fld ''recipient_id'' (Eq b)],
          [Fld ''sender_id'' (Eq b), Fld ''recipient_id'' (Eq a)]]] =
   (sent a b doc \<or> sent b a doc)"
  by (auto simp: sent_def split: option.splits)

lemma matches_participant:
  "list_all (matches d doc)
     [Or [[Fld ''sender_id'' (Eq a)], [Fld ''recipient_id'' (Eq a)]]] = involves a doc"
  by (auto simp: involves_def split: option.splits)


lemma matches_tag:
  assumes "conforms Post doc"
  shows "list_all (matches d doc) [Fld ''tags'' (In [x])] = has_tag x doc"
  using conforms_Post_tags [OF assms]
  by (auto simp: has_tag_def)

lemma matches_tag_author:
  assumes "conforms Post doc"
  shows "list_all (matches d doc) [Fld ''tags'' (In [x]), Fld ''author_id'' (Eq y)] =
         (has_tag x doc \<and> has_author y doc)"
  using conforms_Post_tags [OF assms]
  by (auto simp: has_tag_def has_author_def split: option.splits)

lemma matches_visibility:
  assumes "conforms Post doc"
  shows "list_all (matches d doc) [Fld ''visibility'' (In vs)] = visibility_in vs doc"
  using conforms_Post_visibility [OF assms]
  by (auto simp: visibility_in_def)

section \<open>Search\<close>









section \<open>Messages\<close>

text \<open>
  Claim C2, as the code has it. On a reachable store, \<open>get_messages\<close> with a non-empty
  \<open>with_user = b\<close> returns the first 200 messages sent from \<open>a\<close> to \<open>b\<close> or from \<open>b\<close> to
  \<open>a\<close>, and without \<open>with_user\<close> the first 200 messages that \<open>a\<close> sent or received.
\<close>

theorem get_messages_selects:
  assumes "fault d = None" and "b \<noteq> []"
  shows "get_messages (Some d) a (Some b) =
           Inr (take 200 (filter (\<lambda>doc. sent a b doc \<or> sent b a doc) (collection d ''message''))) \<and>
         get_messages (Some d) a None =
           Inr (take 200 (filter (involves a) (collection d ''message'')))"
proof
  have "get_documents (Some d) ''message''
        [Or [[Fld ''sender_id'' (Eq a), Fld ''recipient_id'' (Eq b)],
             [Fld ''sender_id'' (Eq b), Fld ''recipient_id'' (Eq a)]]] 200 =
      Inr (take 200 (filter (\<lambda>doc. sent a b doc \<or> sent b a doc) (collection d ''message'')))"
    by (rule get_documents_filter [OF assms(1)]) (simp, rule matches_pair)
  with assms(2) show "get_messages (Some d) a (Some b) =
      Inr (take 200 (filter (\<lambda>doc. sent a b doc \<or> sent b a doc) (collection d ''message'')))"
    by (simp add: get_messages_def truthy_def)
next
  have "get_documents (Some d) ''message''
        [Or [[Fld ''sender_id'' (Eq a)], [Fld ''recipient_id'' (Eq a)]]] 200 =
      Inr (take 200 (filter (involves a) (collection d ''message'')))"
    by (rule get_documents_filter [OF assms(1)]) (simp, rule matches_participant)
  then show "get_messages (Some d) a None =
      Inr (take 200 (filter (involves a) (collection d ''message'')))"
    by (simp add: get_messages_def truthy_def)
qed

theorem get_messages_selects_witness:
  "fault example_store = None \<and> ''u2'' \<noteq> [] \<and>
   get_messages (Some example_store) ''u1'' (Some ''u2'') =
     Inr [example_message ''4'' ''u1'' ''u2'', example_message ''5'' ''u2'' ''u1''] \<and>
   get_messages (Some example_store) ''u1'' None =
     Inr [example_message ''4'' ''u1'' ''u2'', example_message ''5'' ''u2'' ''u1'',
          example_message ''6'' ''u1'' ''u3'']"
  using get_messages_selects [of example_store "''u2''" "''u1''"]
  by (simp add: example_store_def collection_def sent_def involves_def example_message_def)

text \<open>
  The claim as stated fails for the empty identifier: with \<open>with_user = ""\<close> the handler
  returns a message between \<open>u1\<close> and \<open>u2\<close>, which is not between \<open>u1\<close> and the empty
  identifier.
\<close>

theorem get_messages_empty_counterexample:
  "get_messages (Some example_store) ''u1'' (Some []) =
     Inr [example_message ''4'' ''u1'' ''u2'', example_message ''5'' ''u2'' ''u1'',
          example_message ''6'' ''u1'' ''u3''] \<and>
   \<not> (sent ''u1'' [] (example_message ''4'' ''u1'' ''u2'') \<or>
      sent [] ''u1'' (example_message ''4'' ''u1'' ''u2''))"
  by (simp add: get_messages_def truthy_def get_documents_def example_store_def collection_def
      sent_def example_message_def)

section \<open>Empty filter parameters\<close>

text \<open>
  Claim C9. An empty-string filter parameter is treated as absent: \<open>list_posts\<close> with
  \<open>tag = ""\<close> answers as without a tag, so with no other parameter it reads the post
  collection unfiltered; \<open>get_messages\<close> with \<open>with_user = ""\<close> answers as without
  \<open>with_user\<close>, that is with the filter on the single participant.
\<close>

theorem empty_parameter_is_absent:
  "list_posts db (Some []) author_id = list_posts db None author_id \<and>
   list_posts db (Some []) None = get_documents db ''post'' [] 100 \<and>
   get_messages db user_id (Some []) = get_messages db user_id None \<and>
   get_messages db user_id None =
     get_documents db ''message''
       [Or [[Fld ''sender_id'' (Eq user_id)], [Fld ''recipient_id'' (Eq user_id)]]] 200"
  by (simp add: list_posts_def get_messages_def truthy_def)

section \<open>Diagnostics\<close>

text \<open>
  Claim C7. Whatever the state of the store, \<open>test_database\<close> returns a response and
  raises nothing, and the response describes that state. Without a handle it is the
  initial response: database not available, URL and name not set, not connected, no
  collections. With a handle whose operations fail with a message it reports the URL as
  set, the name of the handle, the connection as connected, no collections, and as
  database status the warning with the first 80 characters of the message. With a working
  handle it reports the same but the status connected and working, and the names of the
  first 20 collections. So at most 20 names are ever listed.
\<close>

theorem test_database_always_responds:
  "test_database db =
     Inr (case db of
        None \<Rightarrow>
          \<lparr>backend = (Some Check, '' Running''),
           database = (Some Cross, '' Not Available''),
           database_url = (Some Cross, '' Not Set''),
           database_name = (Some Cross, '' Not Set''),
           connection_status = (None, ''Not Connected''),
           collection_names = []\<rparr>
      | Some d \<Rightarrow>
          \<lparr>backend = (Some Check, '' Running''),
           database =
             (case fault d of
                Some m \<Rightarrow> (Some Warning, '' Connected but Error: '' @ take 80 m)
              | None \<Rightarrow> (Some Check, '' Connected & Working'')),
           database_url = (Some Check, '' Set''),
           database_name =
             (case name d of Some n \<Rightarrow> (None, n) | None \<Rightarrow> (Some Check, '' Connected'')),
           connection_status = (None, ''Connected''),
           collection_names =
             (case fault d of
                Some m \<Rightarrow> []
              | None \<Rightarrow> take 20 (map fst (collections d)))\<rparr>) \<and>
   (\<exists>r. test_database db = Inr r \<and> length (collection_names r) \<le> 20)"
  by (simp add: test_database_def try_except_def list_collection_names_def
      split: option.split)

subsection \<open>The example store, evaluated\<close>

lemma example_posts:
  "collection example_store ''post'' =
     [example_post ''0'' ''u1'' (JStr ''Hello World'') [''intro''] ''public'',
      example_post ''1'' ''u2'' (JStr ''abc'') [] ''private'',
      example_post ''2'' ''u1'' JNull [''intro'', ''news''] ''followers'',
      example_post ''3'' ''u2'' (JStr ''say hello'') [''news''] ''subscribers'']"
  by (simp add: example_store_def collection_def)

lemma example_store_reachable: "fault example_store = None"
  by (simp add: example_store_def)

lemma has_tag_example: "has_tag x (example_post i a t ts v) = (x \<in> set ts)"
  by (auto simp: has_tag_def example_post_def)

lemma has_author_example: "has_author y (example_post i a t ts v) = (a = y)"
  by (simp add: has_author_def example_post_def)

lemma visibility_in_example: "visibility_in vs (example_post i a t ts v) = (v \<in> set vs)"
  by (simp add: visibility_in_def example_post_def)

lemma visibility_disjoint:
  assumes "visibility_in [''public'', ''followers''] doc"
  shows "\<not> visibility_in [''private'', ''subscribers''] doc"
proof (cases "map_of doc ''visibility''")
  case None
  with assms show ?thesis by (simp add: visibility_in_def)
next
  case (Some v)
  with assms show ?thesis by (cases v) (auto simp: visibility_in_def)
qed

section \<open>Posts\<close>

text \<open>
  Claim C3, as the code has it. On a reachable store whose posts conform to the model,
  \<open>list_posts\<close> with a non-empty \<open>tag = x\<close> returns the first 100 posts whose tags
  include \<open>x\<close>, and with a non-empty \<open>author_id = y\<close> as well, the first 100 posts that
  satisfy both conditions.
\<close>

theorem list_posts_selects:
  assumes "fault d = None" and "list_all (conforms Post) (collection d ''post'')"
    and "x \<noteq> []" and "y \<noteq> []"
  shows "list_posts (Some d) (Some x) None =
           Inr (take 100 (filter (has_tag x) (collection d ''post''))) \<and>
         list_posts (Some d) (Some x) (Some y) =
           Inr (take 100 (filter (\<lambda>doc. has_tag x doc \<and> has_author y doc) (collection d ''post'')))"
proof
  have "get_documents (Some d) ''post'' [Fld ''tags'' (In [x])] 100 =
      Inr (take 100 (filter (has_tag x) (collection d ''post'')))"
  proof (rule get_documents_filter [OF assms(1)])
    fix doc assume "doc \<in> set (collection d ''post'')"
    with assms(2) have "conforms Post doc" by (simp add: list_all_iff)
    then show "list_all (matches d doc) [Fld ''tags'' (In [x])] = has_tag x doc"
      by (rule matches_tag)
  qed simp
  with assms(3) show "list_posts (Some d) (Some x) None =
      Inr (take 100 (filter (has_tag x) (collection d ''post'')))"
    by (simp add: list_posts_def truthy_def)
next
  have "get_documents (Some d) ''post'' [Fld ''tags'' (In [x]), Fld ''author_id'' (Eq y)] 100 =
      Inr (take 100 (filter (\<lambda>doc. has_tag x doc \<and> has_author y doc) (collection d ''post'')))"
  proof (rule get_documents_filter [OF assms(1)])
    fix doc assume "doc \<in> set (collection d ''post'')"
    with assms(2) have "conforms Post doc" by (simp add: list_all_iff)
    then show "list_all (matches d doc) [Fld ''tags'' (In [x]), Fld ''author_id'' (Eq y)] =
        (has_tag x doc \<and> has_author y doc)"
      by (rule matches_tag_author)
  qed simp
  with assms(3,4) show "list_posts (Some d) (Some x) (Some y) =
      Inr (take 100 (filter (\<lambda>doc. has_tag x doc \<and> has_author y doc) (collection d ''post'')))"
    by (simp add: list_posts_def truthy_def)
qed


theorem list_posts_selects_witness:
  "fault example_store = None \<and> list_all (conforms Post) (collection example_store ''post'') \<and>
   ''news'' \<noteq> [] \<and> ''u1'' \<noteq> [] \<and>
   list_posts (Some example_store) (Some ''news'') None =
     Inr [example_post ''2'' ''u1'' JNull [''intro'', ''news''] ''followers'',
          example_post ''3'' ''u2'' (JStr ''say hello'') [''news''] ''subscribers''] \<and>
   list_posts (Some example_store) (Some ''news'') (Some ''u1'') =
     Inr [example_post ''2'' ''u1'' JNull [''intro'', ''news''] ''followers'']"
proof -
  have "''news'' \<noteq> []" and "''u1'' \<noteq> []" by simp_all
  from list_posts_selects [OF example_store_reachable example_store_conforms this]
  show ?thesis
    using example_store_reachable example_store_conforms
    by (simp add: example_posts has_tag_example has_author_example)
qed

text \<open>
  The claim as stated fails for the empty tag: with \<open>tag = ""\<close> the handler returns
  every post, among them one whose tags do not include the empty string.
\<close>

theorem list_posts_empty_counterexample:
  "list_posts (Some example_store) (Some []) None =
     Inr [example_post ''0'' ''u1'' (JStr ''Hello World'') [''intro''] ''public'',
          example_post ''1'' ''u2'' (JStr ''abc'') [] ''private'',
          example_post ''2'' ''u1'' JNull [''intro'', ''news''] ''followers'',
          example_post ''3'' ''u2'' (JStr ''say hello'') [''news''] ''subscribers''] \<and>
   \<not> has_tag [] (example_post ''0'' ''u1'' (JStr ''Hello World'') [''intro''] ''public'')"
  by (simp add: list_posts_def truthy_def get_documents_def example_store_reachable
      example_posts has_tag_example)

section \<open>Recommendations\<close>

text \<open>
  Claim C5. On a reachable store whose posts conform to the model, \<open>recommendations\<close>
  returns, for every \<open>user_id\<close> (or none), at most 20 documents of the post collection,
  each with visibility \<open>public\<close> or \<open>followers\<close> and none with \<open>private\<close> or
  \<open>subscribers\<close>; on any store, the answer is the same for any two values of
  \<open>user_id\<close>.
\<close>

theorem recommendations_static:
  assumes "fault d = None" and "list_all (conforms Post) (collection d ''post'')"
  shows "\<exists>ds. recommendations (Some d) user_id = Inr ds \<and> length ds \<le> 20 \<and>
           set ds \<subseteq> set (collection d ''post'') \<and>
           (\<forall>doc \<in> set ds. visibility_in [''public'', ''followers''] doc \<and>
              \<not> visibility_in [''private'', ''subscribers''] doc) \<and>
           ds = take 20 (filter (visibility_in [''public'', ''followers'']) (collection d ''post'')) \<and>
           recommendations db other = recommendations db user_id"
proof -
  let ?ds = "take 20 (filter (visibility_in [''public'', ''followers'']) (collection d ''post''))"
  have "get_documents (Some d) ''post'' [Fld ''visibility'' (In [''public'', ''followers''])] 20 = Inr ?ds"
  proof (rule get_documents_filter [OF assms(1)])
    fix doc assume "doc \<in> set (collection d ''post'')"
    with assms(2) have "conforms Post doc" by (simp add: list_all_iff)
    then show "list_all (matches d doc) [Fld ''visibility'' (In [''public'', ''followers''])] =
        visibility_in [''public'', ''followers''] doc"
      by (rule matches_visibility)
  qed simp
  then have 1: "recommendations (Some d) user_id = Inr ?ds"
    by (simp only: recommendations_def)
  have 2: "length ?ds \<le> 20" by simp
  have 3: "set ?ds \<subseteq> set (collection d ''post'')" by (rule take_filter_subset)
  have 4: "\<forall>doc \<in> set ?ds. visibility_in [''public'', ''followers''] doc \<and>
      \<not> visibility_in [''private'', ''subscribers''] doc"
  proof (intro ballI conjI)
    fix doc assume "doc \<in> set ?ds"
    then have "doc \<in> set (filter (visibility_in [''public'', ''followers'']) (collection d ''post''))"
      by (rule in_set_takeD)
    then show v: "visibility_in [''public'', ''followers''] doc" by simp
    then show "\<not> visibility_in [''private'', ''subscribers''] doc"
      by (rule visibility_disjoint)
  qed
  have 5: "recommendations db other = recommendations db user_id"
    by (simp only: recommendations_def)
  show ?thesis
  proof (intro exI [of _ ?ds] conjI)
    show "recommendations (Some d) user_id = Inr ?ds" by (rule 1)
    show "length ?ds \<le> 20" by (rule 2)
    show "set ?ds \<subseteq> set (collection d ''post'')" by (rule 3)
    show "\<forall>doc \<in> set ?ds. visibility_in [''public'', ''followers''] doc \<and>
        \<not> visibility_in [''private'', ''subscribers''] doc" by (rule 4)
    show "?ds = ?ds" by (rule refl)
    show "recommendations db other = recommendations db user_id" by (rule 5)
  qed
qed

theorem recommendations_static_witness:
  "fault example_store = None \<and> list_all (conforms Post) (collection example_store ''post'') \<and>
   recommendations (Some example_store) (Some ''u2'') =
     Inr [example_post ''0'' ''u1'' (JStr ''Hello World'') [''intro''] ''public'',
          example_post ''2'' ''u1'' JNull [''intro'', ''news''] ''followers''] \<and>
   recommendations (Some example_store) None = recommendations (Some example_store) (Some ''u2'')"
  using recommendations_static [OF example_store_reachable example_store_conforms,
      of "Some ''u2''" "Some example_store" None]
    example_store_reachable example_store_conforms
  by (simp add: example_posts visibility_in_example)


section \<open>Validation and the create handlers\<close>

subsection \<open>What the validator answers\<close>

lemma errors_result:
  "isl (case p of ([], ws) \<Rightarrow> Inr (f ws) | (es, ws) \<Rightarrow> Inl es) = (fst p \<noteq> [])"
  by (cases p) (auto split: list.splits)

lemma validate_model_Inl:
  "fst (validate_fields lib fs obj) \<noteq> [] \<Longrightarrow>
   validate_type lib (TModel fs) (JObj obj) = Inl (fst (validate_fields lib fs obj))"
  by (cases "validate_fields lib fs obj") (auto split: list.splits)

lemma validate_model_Inr:
  "fst (validate_fields lib fs obj) = [] \<Longrightarrow>
   validate_type lib (TModel fs) (JObj obj) = Inr (JObj (snd (validate_fields lib fs obj)))"
  by (cases "validate_fields lib fs obj") (auto split: list.splits)

lemma validate_model_cases:
  assumes "validate_type lib (TModel fs) payload = Inr rec"
  obtains obj where "payload = JObj obj" and "fst (validate_fields lib fs obj) = []"
    and "rec = JObj (snd (validate_fields lib fs obj))"
  using assms by (cases payload) (auto split: prod.splits list.splits)

lemma validate_fields_missing:
  "(k, t, None) \<in> set fs \<Longrightarrow> map_of obj k = None \<Longrightarrow>
   ([k], ''missing'') \<in> set (fst (validate_fields lib fs obj))"
  by (induction fs) (auto split: prod.splits option.splits sum.splits)

lemma validate_fields_invalid:
  "(k, t, dflt) \<in> set fs \<Longrightarrow> map_of obj k = Some v \<Longrightarrow> validate_type lib t v = Inl e \<Longrightarrow>
   e' \<in> set e \<Longrightarrow> at k e' \<in> set (fst (validate_fields lib fs obj))"
  by (induction fs) (auto split: prod.splits option.splits sum.splits)

lemma validate_type_errors_nonempty:
  "validate_type lib t v = Inl es \<Longrightarrow> es \<noteq> []"
  by (induction t arbitrary: v es)
    (auto split: jv.splits option.splits if_splits prod.splits list.splits)

lemma collect_items_ok:
  assumes "\<And>x e. x \<in> set vs \<Longrightarrow> f x = Inl e \<Longrightarrow> e \<noteq> []"
  shows "(fst (collect_items i (map f vs)) = []) = (\<forall>x \<in> set vs. \<not> isl (f x))"
  using assms
proof (induction vs arbitrary: i)
  case Nil
  show ?case by simp
next
  case (Cons v vs)
  have "(fst (collect_items (Suc i) (map f vs)) = []) = (\<forall>x \<in> set vs. \<not> isl (f x))"
    by (rule Cons.IH) (rule Cons.prems, simp_all)
  moreover have "\<And>e. f v = Inl e \<Longrightarrow> e \<noteq> []"
    by (rule Cons.prems [of v]) simp_all
  ultimately show ?case
    by (cases "f v"; cases "collect_items (Suc i) (map f vs)") auto
qed

lemma collect_entries_ok:
  assumes "\<And>k w e. (k, w) \<in> set kvs \<Longrightarrow> f w = Inl e \<Longrightarrow> e \<noteq> []"
  shows "(fst (collect_entries (map (\<lambda>(k, w). (k, f w)) kvs)) = []) =
         (\<forall>(k, w) \<in> set kvs. \<not> isl (f w))"
  using assms
proof (induction kvs)
  case Nil
  show ?case by simp
next
  case (Cons kv kvs)
  obtain k w where kv: "kv = (k, w)" by (cases kv)
  have "(fst (collect_entries (map (\<lambda>(k, w). (k, f w)) kvs)) = []) =
         (\<forall>(k, w) \<in> set kvs. \<not> isl (f w))"
  proof (rule Cons.IH)
    fix k' w' e assume "(k', w') \<in> set kvs" and "f w' = Inl e"
    then show "e \<noteq> []" using Cons.prems [of k' w' e] by simp
  qed
  moreover have "\<And>e. f w = Inl e \<Longrightarrow> e \<noteq> []"
    by (rule Cons.prems [of k w]) (simp_all add: kv)
  ultimately show ?case
    unfolding kv
    by (cases "f w"; cases "collect_entries (map (\<lambda>(k, w). (k, f w)) kvs)") auto
qed

lemma validate_fields_Cons_ok:
  "(fst (validate_fields lib ((k, t, dflt) # fs) obj) = []) =
   ((case map_of obj k of None \<Rightarrow> dflt \<noteq> None | Some v \<Rightarrow> \<not> isl (validate_type lib t v)) \<and>
    fst (validate_fields lib fs obj) = [])"
  by (cases "validate_fields lib fs obj")
    (auto dest: validate_type_errors_nonempty split: option.splits sum.splits)

subsection \<open>The validator decides the schema\<close>

text \<open>
  The validator reports an error exactly for the values that do not satisfy the schema,
  where \<open>accepts\<close> and \<open>satisfies\<close> state what a schema admits without reference to the
  validator.
\<close>

lemma validate_accepts: "isl (validate_type lib t v) = (\<not> accepts lib t v)"
  and validate_satisfies: "(fst (validate_fields lib fs obj) = []) = satisfies lib fs obj"
proof (induction lib t v and lib fs obj rule: accepts_satisfies.induct)
  case (1 lib v)
  show ?case by (cases v) simp_all
next
  case (2 lib ge v)
  show ?case by (cases "coerce_int lib v"; cases ge) simp_all
next
  case (3 lib v)
  show ?case by (cases "coerce_bool v") simp_all
next
  case (4 lib allowed v)
  show ?case by (cases v) simp_all
next
  case (5 lib v)
  show ?case by (cases v) simp_all
next
  case (6 lib t v)
  then show ?case by (cases v) simp_all
next
  case (7 lib t v)
  show ?case
  proof (cases v)
    case (JList vs)
    have "(fst (collect_items 0 (map (validate_type lib t) vs)) = []) =
        (\<forall>x \<in> set vs. \<not> isl (validate_type lib t x))"
      by (rule collect_items_ok) (rule validate_type_errors_nonempty)
    also have "\<dots> = list_all (accepts lib t) vs"
      using 7 JList by (simp add: list_all_iff)
    finally show ?thesis
      using JList by (simp add: errors_result)
  qed simp_all
next
  case (8 lib t v)
  show ?case
  proof (cases v)
    case (JObj kvs)
    have "(fst (collect_entries (map (\<lambda>(k, w). (k, validate_type lib t w)) kvs)) = []) =
        (\<forall>(k, w) \<in> set kvs. \<not> isl (validate_type lib t w))"
      by (rule collect_entries_ok) (rule validate_type_errors_nonempty)
    also have "\<dots> = list_all (\<lambda>(k, w). accepts lib t w) kvs"
      using 8 JObj by (auto simp: list_all_iff)
    finally show ?thesis
      using JObj by (simp add: errors_result)
  qed simp_all
next
  case (9 lib fs v)
  then show ?case by (cases v) (simp_all add: errors_result)
next
  case (10 lib obj)
  show ?case by simp
next
  case (11 lib k t dflt fs obj)
  then show ?case
    by (cases "map_of obj k") (simp_all add: validate_fields_Cons_ok del: validate_fields.simps)
qed

lemma satisfies_field:
  "satisfies lib fs obj \<Longrightarrow> (k, t, dflt) \<in> set fs \<Longrightarrow>
   (case map_of obj k of None \<Rightarrow> dflt \<noteq> None | Some v \<Rightarrow> accepts lib t v)"
  by (induction fs) auto

lemma rejected_payload:
  assumes "\<not> accepts lib (TModel model) payload"
  obtains es where "validate_type lib (TModel model) payload = Inl es" and "es \<noteq> []"
proof -
  from assms have "isl (validate_type lib (TModel model) payload)"
    using validate_accepts [of lib "TModel model" payload] by blast
  then obtain es where e: "validate_type lib (TModel model) payload = Inl es"
    by (cases "validate_type lib (TModel model) payload") simp_all
  then have "es \<noteq> []" by (rule validate_type_errors_nonempty)
  with e show ?thesis by (rule that)
qed

subsection \<open>The handlers behind the validator\<close>

lemma with_body_invalid:
  "validate_type lib (TModel model) payload = Inl es \<Longrightarrow>
   with_body lib model handler db payload = (Inl (ValidationError es), db)"
  by (simp add: with_body_def)

lemma with_body_valid:
  "validate_type lib (TModel model) payload = Inr rec \<Longrightarrow>
   with_body lib model handler db payload = handler db rec"
  by (simp add: with_body_def)

lemma post_invalid:
  "validate_type lib (TModel (model_of r)) payload = Inl es \<Longrightarrow>
   post r lib db payload = (Inl (ValidationError es), db)"
  by (cases r)
    (simp_all add: with_body_invalid create_user_def create_post_def add_comment_def add_like_def
      send_message_def create_plan_def create_subscription_def create_payment_def
      create_notification_def create_stream_def create_audio_room_def track_def)

lemma content_type_invalid:
  assumes "map_of obj ''content_type'' \<notin>
      (\<lambda>c. Some (JStr c)) ` set [''text'', ''image'', ''short_video'', ''live_stream'', ''audio'']"
  shows "([''content_type''], ''missing'') \<in> set (fst (validate_fields lib Post obj)) \<or>
         ([''content_type''], ''literal_error'') \<in> set (fst (validate_fields lib Post obj))"
proof (cases "map_of obj ''content_type''")
  case None
  have "(''content_type'', TLiteral [''text'', ''image'', ''short_video'', ''live_stream'', ''audio''], None)
      \<in> set Post"
    by (simp add: Post_def)
  from validate_fields_missing [OF this None] show ?thesis by simp
next
  case (Some v)
  have m: "(''content_type'', TLiteral [''text'', ''image'', ''short_video'', ''live_stream'', ''audio''], None)
      \<in> set Post"
    by (simp add: Post_def)
  have "validate_type lib (TLiteral [''text'', ''image'', ''short_video'', ''live_stream'', ''audio'']) v =
      Inl [([], ''literal_error'')]"
    using assms Some by (cases v) auto
  from validate_fields_invalid [OF m Some this, of "([], ''literal_error'')"]
  show ?thesis by (simp add: at_def)
qed

text \<open>
  Claim C4. On every create route, a request body that does not satisfy the model of the
  route is answered with a non-empty list of validation errors and the store is left as
  it was: no document is inserted. In particular a post whose \<open>content_type\<close> is missing
  or is not one of the strings \<open>text\<close>, \<open>image\<close>, \<open>short_video\<close>, \<open>live_stream\<close>,
  \<open>audio\<close> does not satisfy the model, and the answer names that field.
\<close>

theorem invalid_payload_rejected:
  "(\<not> accepts lib (TModel (model_of r)) payload \<longrightarrow>
      (\<exists>es. es \<noteq> [] \<and> post r lib db payload = (Inl (ValidationError es), db))) \<and>
   (map_of obj ''content_type'' \<notin>
      (\<lambda>c. Some (JStr c)) ` set [''text'', ''image'', ''short_video'', ''live_stream'', ''audio''] \<longrightarrow>
      \<not> accepts lib (TModel Post) (JObj obj) \<and>
      (\<exists>es. (([''content_type''], ''missing'') \<in> set es \<or>
              ([''content_type''], ''literal_error'') \<in> set es) \<and>
         create_post lib db (JObj obj) = (Inl (ValidationError es), db)))"
proof (intro conjI impI)
  assume "\<not> accepts lib (TModel (model_of r)) payload"
  then obtain es where "validate_type lib (TModel (model_of r)) payload = Inl es" and "es \<noteq> []"
    by (rule rejected_payload)
  then have "es \<noteq> [] \<and> post r lib db payload = (Inl (ValidationError es), db)"
    by (simp add: post_invalid)
  then show "\<exists>es. es \<noteq> [] \<and> post r lib db payload = (Inl (ValidationError es), db)"
    by (rule exI)
next
  assume a: "map_of obj ''content_type'' \<notin>
      (\<lambda>c. Some (JStr c)) ` set [''text'', ''image'', ''short_video'', ''live_stream'', ''audio'']"
  let ?es = "fst (validate_fields lib Post obj)"
  from content_type_invalid [OF a, of lib]
  have mem: "([''content_type''], ''missing'') \<in> set ?es \<or> ([''content_type''], ''literal_error'') \<in> set ?es" .
  then have ne: "?es \<noteq> []" by auto
  then have v: "validate_type lib (TModel Post) (JObj obj) = Inl ?es"
    by (rule validate_model_Inl)
  then have "isl (validate_type lib (TModel Post) (JObj obj))" by simp
  then show "\<not> accepts lib (TModel Post) (JObj obj)"
    using validate_accepts [of lib "TModel Post" "JObj obj"] by blast
  have "create_post lib db (JObj obj) = (Inl (ValidationError ?es), db)"
    unfolding create_post_def using v by (rule with_body_invalid)
  with mem show "\<exists>es. (([''content_type''], ''missing'') \<in> set es \<or>
              ([''content_type''], ''literal_error'') \<in> set es) \<and>
         create_post lib db (JObj obj) = (Inl (ValidationError es), db)"
    by blast
qed

text \<open>
  A post body with the content type \<open>bogus\<close> is answered with a \<open>literal_error\<close> on
  \<open>content_type\<close>, and the example store is returned unchanged.
\<close>

theorem invalid_payload_rejected_witness:
  "\<not> accepts example_parsers (TModel (model_of Posts))
      (JObj [(''author_id'', JStr ''u1''), (''content_type'', JStr ''bogus'')]) \<and>
   post Posts example_parsers (Some example_store)
      (JObj [(''author_id'', JStr ''u1''), (''content_type'', JStr ''bogus'')]) =
     (Inl (ValidationError [([''content_type''], ''literal_error'')]), Some example_store) \<and>
   map_of [(''author_id'', JStr ''u1''), (''content_type'', JStr ''bogus'')] ''content_type'' \<notin>
      (\<lambda>c. Some (JStr c)) ` set [''text'', ''image'', ''short_video'', ''live_stream'', ''audio''] \<and>
   (\<exists>es. es \<noteq> [] \<and>
      post Posts example_parsers (Some example_store)
        (JObj [(''author_id'', JStr ''u1''), (''content_type'', JStr ''bogus'')]) =
      (Inl (ValidationError es), Some example_store)) \<and>
   (\<exists>es. (([''content_type''], ''missing'') \<in> set es \<or>
           ([''content_type''], ''literal_error'') \<in> set es) \<and>
      create_post example_parsers (Some example_store)
        (JObj [(''author_id'', JStr ''u1''), (''content_type'', JStr ''bogus'')]) =
      (Inl (ValidationError es), Some example_store))"
proof -
  let ?obj = "[(''author_id'', JStr ''u1''), (''content_type'', JStr ''bogus'')]"
  note t = invalid_payload_rejected [of example_parsers Posts "JObj ?obj" "Some example_store" ?obj]
  have a: "\<not> accepts example_parsers (TModel (model_of Posts)) (JObj ?obj)"
    by (simp add: Post_def)
  have v: "validate_type example_parsers (TModel Post) (JObj ?obj) =
      Inl [([''content_type''], ''literal_error'')]"
    by (simp add: Post_def at_def)
  have p: "post Posts example_parsers (Some example_store) (JObj ?obj) =
      (Inl (ValidationError [([''content_type''], ''literal_error'')]), Some example_store)"
    using v by (simp add: create_post_def with_body_def)
  have m: "map_of ?obj ''content_type'' \<notin>
      (\<lambda>c. Some (JStr c)) ` set [''text'', ''image'', ''short_video'', ''live_stream'', ''audio'']"
    by simp
  from t a have 1: "\<exists>es. es \<noteq> [] \<and>
      post Posts example_parsers (Some example_store) (JObj ?obj) =
      (Inl (ValidationError es), Some example_store)"
    by (rule conjunct1 [THEN mp])
  from t m have "\<not> accepts example_parsers (TModel Post) (JObj ?obj) \<and>
      (\<exists>es. (([''content_type''], ''missing'') \<in> set es \<or>
           ([''content_type''], ''literal_error'') \<in> set es) \<and>
      create_post example_parsers (Some example_store) (JObj ?obj) =
      (Inl (ValidationError es), Some example_store))"
    by (rule conjunct2 [THEN mp])
  then have 2: "\<exists>es. (([''content_type''], ''missing'') \<in> set es \<or>
           ([''content_type''], ''literal_error'') \<in> set es) \<and>
      create_post example_parsers (Some example_store) (JObj ?obj) =
      (Inl (ValidationError es), Some example_store)"
    by (rule conjunct2)
  from a p m 1 2 show ?thesis by (intro conjI)
qed

subsection \<open>Creating a document\<close>

lemma validate_fields_doc:
  "fst (validate_fields lib fs obj) = [] \<Longrightarrow> map_of fs k = Some (t, dflt) \<Longrightarrow>
   map_of obj k = Some v \<Longrightarrow> validate_type lib t v = Inr w \<Longrightarrow>
   map_of (snd (validate_fields lib fs obj)) k = Some w"
  by (induction fs)
    (auto dest: validate_type_errors_nonempty split: prod.splits option.splits sum.splits if_splits)

lemma collection_after_insert:
  "collection (d\<lparr>collections := AList.update c ds (collections d), next_id := n\<rparr>) c = ds"
  by (simp add: collection_def update_conv')

lemma create_available:
  "fault d = None \<Longrightarrow>
   create c (Some d) rec =
     (Inr [(''id'', JStr (show_nat (next_id d)))],
      Some (d\<lparr>collections :=
                AList.update c
                  (collection d c @ [(''_id'', JStr (show_nat (next_id d))) # model_dump rec])
                  (collections d),
              next_id := Suc (next_id d)\<rparr>))"
  by (simp add: create_def create_document_def Let_def)

lemma create_then_get:
  assumes "fault d = None" and "length (collection d c) < limit"
  shows "\<exists>d' ds. create c (Some d) rec = (Inr [(''id'', JStr (show_nat (next_id d)))], Some d') \<and>
           get_documents (Some d') c [] limit = Inr ds \<and>
           (''_id'', JStr (show_nat (next_id d))) # model_dump rec \<in> set ds"
proof -
  let ?doc = "(''_id'', JStr (show_nat (next_id d))) # model_dump rec"
  let ?d' = "d\<lparr>collections := AList.update c (collection d c @ [?doc]) (collections d),
               next_id := Suc (next_id d)\<rparr>"
  have 1: "create c (Some d) rec = (Inr [(''id'', JStr (show_nat (next_id d)))], Some ?d')"
    using assms(1) by (rule create_available)
  have "fault ?d' = None" using assms(1) by simp
  then have 2: "get_documents (Some ?d') c [] limit = Inr (take limit (collection d c @ [?doc]))"
    by (simp add: get_documents_def collection_after_insert)
  have 3: "?doc \<in> set (take limit (collection d c @ [?doc]))"
    using assms(2) by simp
  from 1 2 3 show ?thesis by blast
qed

section \<open>Subscription plans\<close>

text \<open>
  A plan whose price is sent as the string \<open>500\<close> is accepted: the validator reads the
  string as the integer 500, which is what the store receives.
\<close>

lemma example_plan_created:
  "create_plan example_parsers (Some example_store)
      (JObj [(''creator_id'', JStr ''u1''), (''title'', JStr ''Gold''), (''price_cents'', JStr ''500'')]) =
     (Inr [(''id'', JStr ''8'')],
      Some (example_store
        \<lparr>collections := collections example_store @
           [(''subscriptionplan'',
             [[(''_id'', JStr ''8''), (''creator_id'', JStr ''u1''), (''title'', JStr ''Gold''),
               (''price_cents'', JInt 500), (''currency'', JStr ''USD''), (''benefits'', JList []),
               (''tier'', JStr ''bronze'')]])],
         next_id := 9\<rparr>))"
proof -
  have d: "decimal ''500'' = Some 500"
    by (simp add: decimal_def digit_of_def)
  have v: "validate_type example_parsers (TModel SubscriptionPlan)
      (JObj [(''creator_id'', JStr ''u1''), (''title'', JStr ''Gold''), (''price_cents'', JStr ''500'')]) =
     Inr (JObj [(''creator_id'', JStr ''u1''), (''title'', JStr ''Gold''),
               (''price_cents'', JInt 500), (''currency'', JStr ''USD''), (''benefits'', JList []),
               (''tier'', JStr ''bronze'')])"
    by (simp add: SubscriptionPlan_def example_parsers_def d)
  show ?thesis
    unfolding create_plan_def with_body_valid [OF v] create_available [OF example_store_reachable]
    by (simp add: example_store_def collection_def show_nat.simps)
qed

text \<open>
  Claim C8. \<open>create_plan\<close> succeeds only on a body whose \<open>price_cents\<close> is present and
  is read by the validator as an integer greater than or equal to 0; a body whose
  \<open>price_cents\<close> is read as a negative integer is answered with a validation error
  \<open>greater_than_equal\<close> on that field, and the store is left as it was.
\<close>

theorem plan_price_not_negative:
  "(create_plan lib db payload = (Inr r, db') \<longrightarrow>
      (\<exists>obj v n. payload = JObj obj \<and> map_of obj ''price_cents'' = Some v \<and>
         coerce_int lib v = Some n \<and> 0 \<le> n)) \<and>
   (map_of obj ''price_cents'' = Some v \<and> coerce_int lib v = Some n \<and> n < 0 \<longrightarrow>
      (\<exists>es. ([''price_cents''], ''greater_than_equal'') \<in> set es \<and>
         create_plan lib db (JObj obj) = (Inl (ValidationError es), db)))"
proof (intro conjI impI)
  have m: "(''price_cents'', TInt (Some 0), None) \<in> set SubscriptionPlan"
    by (simp add: SubscriptionPlan_def)
  assume ok: "create_plan lib db payload = (Inr r, db')"
  then obtain rec where "validate_type lib (TModel SubscriptionPlan) payload = Inr rec"
    by (cases "validate_type lib (TModel SubscriptionPlan) payload")
      (simp_all add: create_plan_def with_body_def)
  then obtain obj where p: "payload = JObj obj"
    and e: "fst (validate_fields lib SubscriptionPlan obj) = []"
    by (rule validate_model_cases)
  from e have "satisfies lib SubscriptionPlan obj"
    by (simp only: validate_satisfies)
  from satisfies_field [OF this m]
  obtain v where v: "map_of obj ''price_cents'' = Some v"
    and "accepts lib (TInt (Some 0)) v"
    by (cases "map_of obj ''price_cents''") auto
  then obtain n where "coerce_int lib v = Some n" and "0 \<le> n"
    by (cases "coerce_int lib v") auto
  with p v show "\<exists>obj v n. payload = JObj obj \<and> map_of obj ''price_cents'' = Some v \<and>
      coerce_int lib v = Some n \<and> 0 \<le> n"
    by blast
next
  have m: "(''price_cents'', TInt (Some 0), None) \<in> set SubscriptionPlan"
    by (simp add: SubscriptionPlan_def)
  assume "map_of obj ''price_cents'' = Some v \<and> coerce_int lib v = Some n \<and> n < 0"
  then have v: "map_of obj ''price_cents'' = Some v"
    and "coerce_int lib v = Some n" and "n < 0" by simp_all
  then have "validate_type lib (TInt (Some 0)) v = Inl [([], ''greater_than_equal'')]"
    by simp
  from validate_fields_invalid [OF m v this, of "([], ''greater_than_equal'')"]
  have mem: "([''price_cents''], ''greater_than_equal'') \<in> set (fst (validate_fields lib SubscriptionPlan obj))"
    by (simp add: at_def)
  then have "fst (validate_fields lib SubscriptionPlan obj) \<noteq> []" by auto
  from validate_model_Inl [OF this]
  have "create_plan lib db (JObj obj) =
      (Inl (ValidationError (fst (validate_fields lib SubscriptionPlan obj))), db)"
    unfolding create_plan_def by (rule with_body_invalid)
  with mem show "\<exists>es. ([''price_cents''], ''greater_than_equal'') \<in> set es \<and>
      create_plan lib db (JObj obj) = (Inl (ValidationError es), db)"
    by blast
qed

text \<open>
  On the example store, a plan priced \<open>500\<close> is created with the identifier 8, and a plan
  priced \<open>-1\<close> is rejected.
\<close>

theorem plan_price_not_negative_witness:
  "fst (create_plan example_parsers (Some example_store)
      (JObj [(''creator_id'', JStr ''u1''), (''title'', JStr ''Gold''), (''price_cents'', JStr ''500'')])) =
     Inr [(''id'', JStr ''8'')] \<and>
   (\<exists>obj v n. JObj [(''creator_id'', JStr ''u1''), (''title'', JStr ''Gold''), (''price_cents'', JStr ''500'')] =
        JObj obj \<and> map_of obj ''price_cents'' = Some v \<and>
        coerce_int example_parsers v = Some n \<and> 0 \<le> n) \<and>
   map_of [(''creator_id'', JStr ''u1''), (''title'', JStr ''Gold''), (''price_cents'', JInt (- 1))]
      ''price_cents'' = Some (JInt (- 1)) \<and>
   coerce_int example_parsers (JInt (- 1)) = Some (- 1) \<and> (- 1 :: int) < 0 \<and>
   (\<exists>es. ([''price_cents''], ''greater_than_equal'') \<in> set es \<and>
      create_plan example_parsers (Some example_store)
        (JObj [(''creator_id'', JStr ''u1''), (''title'', JStr ''Gold''), (''price_cents'', JInt (- 1))]) =
      (Inl (ValidationError es), Some example_store))"
proof -
  let ?p = "JObj [(''creator_id'', JStr ''u1''), (''title'', JStr ''Gold''), (''price_cents'', JStr ''500'')]"
  let ?neg = "[(''creator_id'', JStr ''u1''), (''title'', JStr ''Gold''), (''price_cents'', JInt (- 1))]"
  let ?r = "create_plan example_parsers (Some example_store) ?p"
  note t = plan_price_not_negative [of example_parsers "Some example_store" ?p
      "[(''id'', JStr ''8'')]" "snd ?r" ?neg "JInt (- 1)" "- 1"]
  have a: "fst ?r = Inr [(''id'', JStr ''8'')]"
    by (simp add: example_plan_created)
  then have "?r = (Inr [(''id'', JStr ''8'')], snd ?r)"
    by (metis prod.collapse)
  with t have b: "\<exists>obj v n. ?p = JObj obj \<and> map_of obj ''price_cents'' = Some v \<and>
      coerce_int example_parsers v = Some n \<and> 0 \<le> n"
    by (rule conjunct1 [THEN mp])
  have c: "map_of ?neg ''price_cents'' = Some (JInt (- 1)) \<and>
      coerce_int example_parsers (JInt (- 1)) = Some (- 1) \<and> (- 1 :: int) < 0"
    by simp
  with t have d: "\<exists>es. ([''price_cents''], ''greater_than_equal'') \<in> set es \<and>
      create_plan example_parsers (Some example_store) (JObj ?neg) =
      (Inl (ValidationError es), Some example_store)"
    by (rule conjunct2 [THEN mp])
  from a b c d show ?thesis by (intro conjI) simp_all
qed

end
